theory Spec2Isabelle
  imports Main
begin

section \<open>Decoded TOML documents and the Python operations used on them\<close>

text \<open>
  \<^verbatim>\<open>PoetryParser.__init__\<close> (\<^verbatim>\<open>src/cyclonedx_py/parser/poetry.py\<close>) works on the
  values that \<^verbatim>\<open>toml.loads\<close> returns: strings, integers, booleans, arrays and
  tables.  A table is kept as an association list in document order; a decoded table has
  no repeated key, and \<open>map_of\<close> reads the first binding.  TOML floats and date-times are
  left out of the value type.  A Python string is a list of code points; \<open>char\<close> covers the
  code points below 256.
\<close>

datatype toml =
    TStr string
  | TInt int
  | TBool bool
  | TArr "toml list"
  | TTable "(string \<times> toml) list"

text \<open>
  Exceptions are values.  \<open>KeyError\<close> carries the key, as Python's does.
  \<open>CycloneDxModelException\<close> stands for the class of that name and its subclasses, the only
  exceptions the parser's inner \<^verbatim>\<open>try\<close> intercepts; \<open>ExternalError\<close> is any other
  exception raised by a library call (for instance \<^verbatim>\<open>ValueError\<close> from \<^verbatim>\<open>PackageURL\<close>
  or a decode error from \<^verbatim>\<open>toml.loads\<close>).
\<close>

datatype exn =
    KeyError toml
  | TypeError
  | AttributeError
  | IndexError
  | CycloneDxModelException string
  | ExternalError string

subsection \<open>Subscripting, \<^verbatim>\<open>dict.get\<close>, iteration, truthiness\<close>

definition py_index :: "'a list \<Rightarrow> int \<Rightarrow> exn + 'a" where
  \<comment> \<open>\<^verbatim>\<open>xs[i]\<close> on a sequence; an index below zero is taken from the end\<close>
  "py_index xs i =
     (if 0 \<le> i \<and> i < int (length xs) then Inr (xs ! nat i)
      else if i < 0 \<and> - int (length xs) \<le> i then Inr (xs ! nat (int (length xs) + i))
      else Inl IndexError)"

fun py_getitem :: "toml \<Rightarrow> toml \<Rightarrow> exn + toml" where
  \<comment> \<open>\<^verbatim>\<open>container[key]\<close>\<close>
  "py_getitem (TTable kvs) (TStr k) =
     (case map_of kvs k of None \<Rightarrow> Inl (KeyError (TStr k)) | Some v \<Rightarrow> Inr v)"
| "py_getitem (TTable kvs) (TInt i) = Inl (KeyError (TInt i))"
| "py_getitem (TTable kvs) (TBool b) = Inl (KeyError (TBool b))"
| "py_getitem (TTable kvs) (TArr ys) = Inl TypeError"
| "py_getitem (TTable kvs) (TTable ys) = Inl TypeError"
| "py_getitem (TArr xs) (TInt i) = py_index xs i"
| "py_getitem (TArr xs) (TBool b) = py_index xs (if b then 1 else 0)"
| "py_getitem (TArr xs) k = Inl TypeError"
| "py_getitem (TStr s) (TInt i) = map_sum id (\<lambda>c. TStr [c]) (py_index s i)"
| "py_getitem (TStr s) (TBool b) = map_sum id (\<lambda>c. TStr [c]) (py_index s (if b then 1 else 0))"
| "py_getitem (TStr s) k = Inl TypeError"
| "py_getitem (TInt i) k = Inl TypeError"
| "py_getitem (TBool b) k = Inl TypeError"

fun py_get :: "toml \<Rightarrow> string \<Rightarrow> exn + toml option" where
  \<comment> \<open>\<^verbatim>\<open>container.get(key)\<close>; the result \<open>None\<close> is Python's \<^verbatim>\<open>None\<close>\<close>
  "py_get (TTable kvs) k = Inr (map_of kvs k)"
| "py_get v k = Inl AttributeError"

fun py_iter :: "toml \<Rightarrow> exn + toml list" where
  \<comment> \<open>the values a \<^verbatim>\<open>for\<close> loop visits: the items of an array, the keys of a table,
      the characters of a string\<close>
  "py_iter (TArr xs) = Inr xs"
| "py_iter (TTable kvs) = Inr (map (\<lambda>kv. TStr (fst kv)) kvs)"
| "py_iter (TStr s) = Inr (map (\<lambda>c. TStr [c]) s)"
| "py_iter (TInt i) = Inl TypeError"
| "py_iter (TBool b) = Inl TypeError"

fun py_truthy :: "toml option \<Rightarrow> bool" where
  "py_truthy None = False"
| "py_truthy (Some (TStr s)) = (s \<noteq> [])"
| "py_truthy (Some (TInt i)) = (i \<noteq> 0)"
| "py_truthy (Some (TBool b)) = b"
| "py_truthy (Some (TArr xs)) = (xs \<noteq> [])"
| "py_truthy (Some (TTable kvs)) = (kvs \<noteq> [])"

subsection \<open>\<^verbatim>\<open>str()\<close> and \<^verbatim>\<open>repr()\<close>\<close>

function str_nat :: "nat \<Rightarrow> string" where
  "str_nat n =
     (if n < 10 then [''0123456789'' ! n]
      else str_nat (n div 10) @ [''0123456789'' ! (n mod 10)])"
  by pat_completeness auto
termination
  by (relation "measure id") auto

definition str_int :: "int \<Rightarrow> string" where
  "str_int i = (if i < 0 then CHR ''-'' # str_nat (nat (- i)) else str_nat (nat i))"

definition py_isprintable :: "char \<Rightarrow> bool" where
  \<comment> \<open>below 256 the unprintable code points are the controls, NBSP and the soft hyphen\<close>
  "py_isprintable c =
     (let n = (of_char c :: nat)
      in (32 \<le> n \<and> n < 127) \<or> (161 \<le> n \<and> n \<noteq> 173))"

definition repr_char :: "char \<Rightarrow> char \<Rightarrow> string" where
  "repr_char q c =
     (if c = q \<or> c = CHR 0x5C then [CHR 0x5C, c]
      else if c = CHR 0x09 then [CHR 0x5C, CHR ''t'']
      else if c = CHR 0x0A then [CHR 0x5C, CHR ''n'']
      else if c = CHR 0x0D then [CHR 0x5C, CHR ''r'']
      else if \<not> py_isprintable c then
        [CHR 0x5C, CHR ''x'',
         ''0123456789abcdef'' ! ((of_char c :: nat) div 16),
         ''0123456789abcdef'' ! ((of_char c :: nat) mod 16)]
      else [c])"

definition repr_str :: "string \<Rightarrow> string" where
  \<comment> \<open>single quotes, unless the text has a single quote and no double quote\<close>
  "repr_str s =
     (let q = (if CHR 0x27 \<in> set s \<and> CHR 0x22 \<notin> set s then CHR 0x22 else CHR 0x27)
      in q # concat (map (repr_char q) s) @ [q])"

fun join :: "string \<Rightarrow> string list \<Rightarrow> string" where
  "join sep [] = []"
| "join sep [x] = x"
| "join sep (x # y # ys) = x @ sep @ join sep (y # ys)"

fun py_repr :: "toml \<Rightarrow> string" where
  "py_repr (TStr s) = repr_str s"
| "py_repr (TInt i) = str_int i"
| "py_repr (TBool b) = (if b then ''True'' else ''False'')"
| "py_repr (TArr xs) = ''['' @ join '', '' (map py_repr xs) @ '']''"
| "py_repr (TTable kvs) =
     ''{'' @ join '', '' (map (\<lambda>(k, v). repr_str k @ '': '' @ py_repr v) kvs) @ ''}''"

fun py_str :: "toml \<Rightarrow> string" where
  \<comment> \<open>\<^verbatim>\<open>str(v)\<close>, also what an f-string field \<^verbatim>\<open>{v}\<close> renders\<close>
  "py_str (TStr s) = s"
| "py_str v = py_repr v"

subsection \<open>\<^verbatim>\<open>str.split\<close> and \<^verbatim>\<open>int()\<close>\<close>

fun split_from :: "char \<Rightarrow> string \<Rightarrow> string \<Rightarrow> string list" where
  "split_from sep cur [] = [cur]"
| "split_from sep cur (c # cs) =
     (if c = sep then cur # split_from sep [] cs else split_from sep (cur @ [c]) cs)"

definition py_split :: "char \<Rightarrow> string \<Rightarrow> string list" where
  \<comment> \<open>\<^verbatim>\<open>s.split(sep)\<close> for a one-character separator\<close>
  "py_split sep s = split_from sep [] s"

definition py_isspace :: "char \<Rightarrow> bool" where
  "py_isspace c =
     (c \<in> set [CHR 0x09, CHR 0x0A, CHR 0x0B, CHR 0x0C, CHR 0x0D, CHR 0x1C, CHR 0x1D,
               CHR 0x1E, CHR 0x1F, CHR 0x20, CHR 0x85, CHR 0xA0])"

definition is_digit :: "char \<Rightarrow> bool" where
  "is_digit c = (c \<in> set ''0123456789'')"

definition digit_val :: "char \<Rightarrow> nat" where
  "digit_val c = of_char c - 48"

fun double_underscore :: "string \<Rightarrow> bool" where
  "double_underscore (a # b # cs) =
     ((a = CHR ''_'' \<and> b = CHR ''_'') \<or> double_underscore (b # cs))"
| "double_underscore cs = False"

definition py_int :: "string \<Rightarrow> int option" where
  \<comment> \<open>\<^verbatim>\<open>int(s)\<close> in base 10; \<open>None\<close> is \<^verbatim>\<open>ValueError\<close>.  Accepted: surrounding
      whitespace, one sign, digits with single underscores between them.\<close>
  "py_int s =
     (let t = dropWhile py_isspace s;
          neg = (t \<noteq> [] \<and> hd t = CHR ''-'');
          u = (if t \<noteq> [] \<and> (hd t = CHR ''-'' \<or> hd t = CHR ''+'') then tl t else t);
          body = takeWhile (\<lambda>c. is_digit c \<or> c = CHR ''_'') u;
          rest = dropWhile (\<lambda>c. is_digit c \<or> c = CHR ''_'') u
      in if body = [] \<or> hd body = CHR ''_'' \<or> last body = CHR ''_''
            \<or> double_underscore body \<or> \<not> list_all py_isspace rest
         then None
         else Some ((if neg then - 1 else 1) *
                    int (foldl (\<lambda>a c. 10 * a + digit_val c) 0 (filter is_digit body))))"

subsection \<open>Tuple comparison\<close>

fun tuple_ge :: "int list \<Rightarrow> int list \<Rightarrow> bool" where
  \<comment> \<open>\<^verbatim>\<open>a >= b\<close> on tuples of integers: decided at the first position that differs,
      otherwise by length\<close>
  "tuple_ge a [] = True"
| "tuple_ge [] (y # ys) = False"
| "tuple_ge (x # xs) (y # ys) = (if x = y then tuple_ge xs ys else x > y)"

section \<open>The schema generation of a lock document\<close>

text \<open>
  Lines 61--64:
  \<^verbatim>\<open>
  try:
      poetry_lock_version = tuple(int(p) for p in str(poetry_lock_metadata['lock-version']).split('.'))
  except Exception:
      poetry_lock_version = (0,)
  \<close>
  Every exception of the \<^verbatim>\<open>try\<close> body (the subscript, \<^verbatim>\<open>int\<close>) ends in \<open>[0]\<close>.
\<close>

definition poetry_lock_version :: "toml \<Rightarrow> int list" where
  "poetry_lock_version poetry_lock_metadata =
     (case py_getitem poetry_lock_metadata (TStr ''lock-version'') of
        Inl e \<Rightarrow> [0]
      | Inr v \<Rightarrow>
          (case those (map py_int (py_split (CHR ''.'') (py_str v))) of
             None \<Rightarrow> [0]
           | Some ps \<Rightarrow> ps))"

section \<open>The output data and the library calls\<close>

text \<open>
  The component model, the package URL, the URI wrapper and the hash parser belong to the
  libraries \<^verbatim>\<open>cyclonedx\<close> and \<^verbatim>\<open>packageurl\<close>.  Their constructors that only store
  their arguments are datatypes and records here, holding what the parser passes; the
  calls that compute or validate are parameters, collected in \<open>collab\<close>.
  \<^verbatim>\<open>properties\<close> and \<^verbatim>\<open>external_references\<close> are sets in the library (the parser
  calls \<^verbatim>\<open>.add\<close>), so equal entries merge.
\<close>

datatype ExternalReferenceType = VCS | ISSUE_TRACKER | WEBSITE | DISTRIBUTION | OTHER

datatype Property = Property string toml
  \<comment> \<open>\<^verbatim>\<open>Property(name=..., value=...)\<close>\<close>

datatype ('u, 'h) ExternalReference =
  ExternalReference ExternalReferenceType 'u string "'h list"
  \<comment> \<open>\<^verbatim>\<open>ExternalReference(type=..., url=..., comment=..., hashes=...)\<close>\<close>

record ('p, 'u, 'h) component =
  name :: toml
  bom_ref :: "string option"
  version :: toml
  purl :: "'p option"
  properties :: "Property set"
  external_references :: "('u, 'h) ExternalReference set"

datatype ('p, 'u, 'h) BomMetaData = BomMetaData "('p, 'u, 'h) component"

record ('p, 'u, 'h) collab =
  load_toml :: "string \<Rightarrow> exn + (string \<times> toml) list"
    \<comment> \<open>\<^verbatim>\<open>toml.loads\<close>: the decoded top-level table, or a decode error\<close>
  PackageURL :: "toml \<Rightarrow> toml \<Rightarrow> exn + 'p"
    \<comment> \<open>\<^verbatim>\<open>PackageURL(type='pypi', name=..., version=...)\<close>\<close>
  to_string :: "'p \<Rightarrow> string"
  get_pypi_url :: "('p, 'u, 'h) component \<Rightarrow> string"
  XsUri :: "string \<Rightarrow> exn + 'u"
  from_composite_str :: "toml \<Rightarrow> exn + 'h"
    \<comment> \<open>\<^verbatim>\<open>HashType.from_composite_str\<close>\<close>
  PackageGroup :: string
    \<comment> \<open>\<^verbatim>\<open>PoetryProps.PackageGroup.value\<close>, the fixed property name for the package group\<close>

text \<open>
  The diagnostic callback \<^verbatim>\<open>debug_message(format, *args)\<close> returns nothing; what it
  does with a message is a change of its own state \<open>'s\<close>.  \<open>quiet\<close> is the default
  callback, which drops every message.
\<close>

datatype dbg_arg = AStr string | AToml toml | AVersion "int list" | AExn exn

type_synonym 's DebugMessageCallback = "string \<Rightarrow> dbg_arg list \<Rightarrow> 's \<Rightarrow> 's"

definition quiet :: "'s DebugMessageCallback" where
  "quiet message args s = s"

definition recording :: "((string \<times> dbg_arg list) list) DebugMessageCallback" where
  \<comment> \<open>a callback that keeps every message, in order\<close>
  "recording message args s = s @ [(message, args)]"

fun is_CycloneDxModelException :: "exn \<Rightarrow> bool" where
  "is_CycloneDxModelException (CycloneDxModelException m) = True"
| "is_CycloneDxModelException e = False"

section \<open>\<^verbatim>\<open>PoetryParser.__init__\<close>\<close>

subsection \<open>One file descriptor (lines 88--99)\<close>

definition distribution_reference ::
  "('p, 'u, 'h) collab \<Rightarrow> ('p, 'u, 'h) component \<Rightarrow> toml \<Rightarrow> exn + ('u, 'h) ExternalReference"
where
  \<comment> \<open>the argument of \<^verbatim>\<open>external_references.add\<close>, its keyword arguments evaluated
      from left to right\<close>
  "distribution_reference env component file_metadata =
     (case XsUri env (get_pypi_url env component) of
        Inl e \<Rightarrow> Inl e
      | Inr url \<Rightarrow>
     (case py_getitem file_metadata (TStr ''file'') of
        Inl e \<Rightarrow> Inl e
      | Inr file \<Rightarrow>
     (case py_getitem file_metadata (TStr ''hash'') of
        Inl e \<Rightarrow> Inl e
      | Inr hash \<Rightarrow>
     (case from_composite_str env hash of
        Inl e \<Rightarrow> Inl e
      | Inr h \<Rightarrow>
          Inr (ExternalReference DISTRIBUTION url (''Distribution file: '' @ py_str file) [h])))))"

fun process_package_files ::
  "('p, 'u, 'h) collab \<Rightarrow> 's DebugMessageCallback \<Rightarrow> toml list \<Rightarrow> ('p, 'u, 'h) component \<Rightarrow> 's
     \<Rightarrow> (exn + ('p, 'u, 'h) component) \<times> 's"
where
  \<comment> \<open>the loop of line 87; only a \<^verbatim>\<open>CycloneDxModelException\<close> is intercepted\<close>
  "process_package_files env debug_message [] component s = (Inr component, s)"
| "process_package_files env debug_message (file_metadata # package_files) component s =
     (let s1 = debug_message ''processing file_metadata: {!r}'' [AToml file_metadata] s
      in case distribution_reference env component file_metadata of
           Inr r \<Rightarrow>
             process_package_files env debug_message package_files
               (component\<lparr>external_references := insert r (external_references component)\<rparr>) s1
         | Inl error \<Rightarrow>
             if is_CycloneDxModelException error
             then process_package_files env debug_message package_files component
                    (debug_message ''Warning: suppressed {!r}'' [AExn error] s1)
             else (Inl error, s1))"

subsection \<open>One package entry (lines 69--100)\<close>

definition package_files_of :: "int list \<Rightarrow> toml \<Rightarrow> toml \<Rightarrow> exn + toml" where
  \<comment> \<open>lines 83--85: the conditional expression that finds the file descriptors\<close>
  "package_files_of lock_version poetry_lock_metadata package =
     (if tuple_ge lock_version [2]
      then py_getitem package (TStr ''files'')
      else (case py_getitem poetry_lock_metadata (TStr ''files'') of
              Inl e \<Rightarrow> Inl e
            | Inr files \<Rightarrow>
                (case py_getitem package (TStr ''name'') of
                   Inl e \<Rightarrow> Inl e
                 | Inr n \<Rightarrow> py_getitem files n)))"

definition new_component ::
  "('p, 'u, 'h) collab \<Rightarrow> bool \<Rightarrow> toml \<Rightarrow> exn + ('p, 'u, 'h) component"
where
  \<comment> \<open>lines 71--81: identifier, component and the package-group property\<close>
  "new_component env use_purl_bom_ref package =
     (case py_getitem package (TStr ''name'') of
        Inl e \<Rightarrow> Inl e
      | Inr n \<Rightarrow>
     (case py_getitem package (TStr ''version'') of
        Inl e \<Rightarrow> Inl e
      | Inr v \<Rightarrow>
     (case PackageURL env n v of
        Inl e \<Rightarrow> Inl e
      | Inr p \<Rightarrow>
     (case py_get package ''category'' of
        Inl e \<Rightarrow> Inl e
      | Inr package_category \<Rightarrow>
          Inr \<lparr> name = n,
                bom_ref = (if use_purl_bom_ref then Some (to_string env p) else None),
                version = v,
                purl = Some p,
                properties =
                  (if py_truthy package_category
                   then {Property (PackageGroup env) (the package_category)} else {}),
                external_references = {} \<rparr>))))"

definition process_package ::
  "('p, 'u, 'h) collab \<Rightarrow> bool \<Rightarrow> 's DebugMessageCallback \<Rightarrow> int list \<Rightarrow> toml \<Rightarrow> toml \<Rightarrow> 's
     \<Rightarrow> (exn + ('p, 'u, 'h) component) \<times> 's"
where
  "process_package env use_purl_bom_ref debug_message lock_version poetry_lock_metadata package s =
     (let s1 = debug_message ''processing package: {!r}'' [AToml package] s
      in case new_component env use_purl_bom_ref package of
           Inl e \<Rightarrow> (Inl e, s1)
         | Inr component \<Rightarrow>
     (let s2 = debug_message ''detecting package_files'' [] s1
      in case package_files_of lock_version poetry_lock_metadata package of
           Inl e \<Rightarrow> (Inl e, s2)
         | Inr package_files \<Rightarrow>
     (let s3 = debug_message ''processing package_files: {!r}'' [AToml package_files] s2
      in case py_iter package_files of
           Inl e \<Rightarrow> (Inl e, s3)
         | Inr fms \<Rightarrow> process_package_files env debug_message fms component s3)))"

subsection \<open>The package loop (lines 68--100)\<close>

fun process_packages ::
  "('p, 'u, 'h) collab \<Rightarrow> bool \<Rightarrow> 's DebugMessageCallback \<Rightarrow> int list \<Rightarrow> toml \<Rightarrow> toml list
     \<Rightarrow> ('p, 'u, 'h) component list \<Rightarrow> 's \<Rightarrow> (exn + ('p, 'u, 'h) component list) \<times> 's"
where
  "process_packages env use_purl_bom_ref debug_message lock_version poetry_lock_metadata
       [] components s = (Inr components, s)"
| "process_packages env use_purl_bom_ref debug_message lock_version poetry_lock_metadata
       (package # packages) components s =
     (case process_package env use_purl_bom_ref debug_message lock_version
             poetry_lock_metadata package s of
        (Inl e, s1) \<Rightarrow> (Inl e, s1)
      | (Inr component, s1) \<Rightarrow>
          process_packages env use_purl_bom_ref debug_message lock_version
            poetry_lock_metadata packages (components @ [component]) s1)"

subsection \<open>The root metadata (lines 102--108)\<close>

definition py_get_default :: "toml \<Rightarrow> string \<Rightarrow> toml \<Rightarrow> exn + toml" where
  \<comment> \<open>\<^verbatim>\<open>container.get(key, default)\<close>\<close>
  "py_get_default container k d =
     (case py_get container k of
        Inl e \<Rightarrow> Inl e
      | Inr None \<Rightarrow> Inr d
      | Inr (Some v) \<Rightarrow> Inr v)"

definition root_metadata ::
  "('p, 'u, 'h) collab \<Rightarrow> string \<Rightarrow> exn + ('p, 'u, 'h) BomMetaData option"
where
  "root_metadata env pyproject_toml_contents =
     (if pyproject_toml_contents \<noteq> []
      then
        (case load_toml env pyproject_toml_contents of
           Inl e \<Rightarrow> Inl e
         | Inr poetry_toml \<Rightarrow>
        (case py_get_default (TTable poetry_toml) ''tool'' (TStr []) of
           Inl e \<Rightarrow> Inl e
         | Inr tool \<Rightarrow>
        (case py_get_default tool ''poetry'' (TStr []) of
           Inl e \<Rightarrow> Inl e
         | Inr poetry_toml_metadata \<Rightarrow>
        (case py_getitem poetry_toml_metadata (TStr ''name'') of
           Inl e \<Rightarrow> Inl e
         | Inr n \<Rightarrow>
        (case py_getitem poetry_toml_metadata (TStr ''version'') of
           Inl e \<Rightarrow> Inl e
         | Inr v \<Rightarrow>
             Inr (Some (BomMetaData
               \<lparr> name = n, bom_ref = None, version = v, purl = None,
                 properties = {}, external_references = {} \<rparr>)))))))
      else Inr None)"

subsection \<open>The constructor\<close>

record ('p, 'u, 'h) parser =
  components :: "('p, 'u, 'h) component list"
  metadata :: "('p, 'u, 'h) BomMetaData option"

definition PoetryParser_init ::
  "('p, 'u, 'h) collab \<Rightarrow> string \<Rightarrow> string \<Rightarrow> bool \<Rightarrow> 's DebugMessageCallback \<Rightarrow> string \<Rightarrow> 's
     \<Rightarrow> (exn + ('p, 'u, 'h) parser) \<times> 's"
where
  \<comment> \<open>\<open>class_name\<close> is \<^verbatim>\<open>self.__class__.__name__\<close>.  A raised exception leaves the
      caller without a parser object: the result is \<open>Inl\<close>.\<close>
  "PoetryParser_init env class_name poetry_lock_contents use_purl_bom_ref debug_message
       pyproject_toml_contents s =
     (let s1 = debug_message ''init {}'' [AStr class_name] s;
          s2 = debug_message ''loading poetry_lock_contents'' [] s1
      in case load_toml env poetry_lock_contents of
           Inl e \<Rightarrow> (Inl e, s2)
         | Inr poetry_lock \<Rightarrow>
     (case py_getitem (TTable poetry_lock) (TStr ''metadata'') of
           Inl e \<Rightarrow> (Inl e, s2)
         | Inr poetry_lock_metadata \<Rightarrow>
     (let lock_version = poetry_lock_version poetry_lock_metadata;
          s3 = debug_message ''detected poetry_lock_version: {!r}'' [AVersion lock_version] s2;
          s4 = debug_message ''processing poetry_lock'' [] s3
      in case py_getitem (TTable poetry_lock) (TStr ''package'') of
           Inl e \<Rightarrow> (Inl e, s4)
         | Inr package_value \<Rightarrow>
     (case py_iter package_value of
           Inl e \<Rightarrow> (Inl e, s4)
         | Inr packages \<Rightarrow>
     (case process_packages env use_purl_bom_ref debug_message lock_version
             poetry_lock_metadata packages [] s4 of
           (Inl e, s5) \<Rightarrow> (Inl e, s5)
         | (Inr cs, s5) \<Rightarrow>
     (case root_metadata env pyproject_toml_contents of
           Inl e \<Rightarrow> (Inl e, s5)
         | Inr m \<Rightarrow> (Inr \<lparr> components = cs, metadata = m \<rparr>, s5)))))))"

definition PoetryParser ::
  "('p, 'u, 'h) collab \<Rightarrow> string \<Rightarrow> bool \<Rightarrow> 's DebugMessageCallback \<Rightarrow> string \<Rightarrow> 's
     \<Rightarrow> (exn + ('p, 'u, 'h) parser) \<times> 's"
where
  \<comment> \<open>\<^verbatim>\<open>PoetryParser(poetry_lock_contents, use_purl_bom_ref, debug_message=...,
      pyproject_toml_contents=...)\<close>\<close>
  "PoetryParser env = PoetryParser_init env ''PoetryParser''"

subsection \<open>Two generations of the same package\<close>

definition same_package :: "toml \<Rightarrow> toml \<Rightarrow> toml \<Rightarrow> bool" where
  \<comment> \<open>entry \<open>p1\<close> of a generation-1 document with metadata section \<open>metadata1\<close> and entry
      \<open>p2\<close> of a generation-2 document describe the same package: equal name, version and
      category, and the descriptors listed under the name in \<^verbatim>\<open>metadata.files\<close> are the
      ones inline in \<open>p2\<close>\<close>
  "same_package metadata1 p1 p2 \<longleftrightarrow>
     py_getitem p1 (TStr ''name'') = py_getitem p2 (TStr ''name'') \<and>
     py_getitem p1 (TStr ''version'') = py_getitem p2 (TStr ''version'') \<and>
     py_get p1 ''category'' = py_get p2 ''category'' \<and>
     (case py_getitem metadata1 (TStr ''files'') of
        Inl e \<Rightarrow> False
      | Inr table \<Rightarrow>
          (case py_getitem p1 (TStr ''name'') of
             Inl e \<Rightarrow> False
           | Inr n \<Rightarrow>
               (case py_getitem table n of
                  Inl e \<Rightarrow> False
                | Inr fs \<Rightarrow> py_getitem p2 (TStr ''files'') = Inr fs)))"

section \<open>Sample collaborators and documents\<close>

text \<open>
  A concrete set of collaborators, used to run the parser on sample documents.  The
  decoder is a table from sample texts to their decoded documents; the hash parser
  accepts \<^verbatim>\<open>sha256:<digest>\<close> and rejects any other text with a
  \<^verbatim>\<open>CycloneDxModelException\<close>.
\<close>

definition sample_hash :: "toml \<Rightarrow> exn + string \<times> string" where
  "sample_hash h =
     (case h of
        TStr s \<Rightarrow>
          (case py_split (CHR '':'') s of
             [a, d] \<Rightarrow>
               if a = ''sha256'' then Inr (''SHA-256'', d)
               else Inl (CycloneDxModelException ''UnknownHashTypeException'')
           | _ \<Rightarrow> Inl (CycloneDxModelException ''UnknownHashTypeException''))
      | _ \<Rightarrow> Inl (ExternalError ''AttributeError''))"

definition sample_purl :: "toml \<Rightarrow> toml \<Rightarrow> exn + string" where
  "sample_purl n v =
     (case n of
        TStr a \<Rightarrow>
          (case v of
             TStr b \<Rightarrow> Inr (''pkg:pypi/'' @ a @ ''@'' @ b)
           | _ \<Rightarrow> Inl (ExternalError ''ValueError''))
      | _ \<Rightarrow> Inl (ExternalError ''ValueError''))"

definition sample_env ::
  "(string \<times> (string \<times> toml) list) list \<Rightarrow> (string, string, string \<times> string) collab"
where
  "sample_env texts =
     \<lparr> load_toml =
         (\<lambda>s. case map_of texts s of
                None \<Rightarrow> Inl (ExternalError ''TomlDecodeError'')
              | Some d \<Rightarrow> Inr d),
       PackageURL = sample_purl,
       to_string = (\<lambda>p. p),
       get_pypi_url =
         (\<lambda>c. ''https://pypi.org/project/'' @ py_str (name c) @ ''/'' @ py_str (version c)),
       XsUri = Inr,
       from_composite_str = sample_hash,
       PackageGroup = ''cdx:poetry:package:group'' \<rparr>"

definition requests_files :: toml where
  "requests_files =
     TArr [TTable [(''file'', TStr ''requests-2.31.0-py3-none-any.whl''),
                   (''hash'', TStr ''sha256:58cd2187'')],
           TTable [(''file'', TStr ''requests-2.31.0.tar.gz''),
                   (''hash'', TStr ''not-a-valid-hash'')]]"

definition requests_entry :: "(string \<times> toml) list" where
  "requests_entry =
     [(''name'', TStr ''requests''), (''version'', TStr ''2.31.0''), (''category'', TStr ''main'')]"

definition requests_component :: "(string, string, string \<times> string) component" where
  \<comment> \<open>what the sample collaborators make of \<open>requests_entry\<close> with \<open>requests_files\<close>\<close>
  "requests_component =
     \<lparr> name = TStr ''requests'', bom_ref = None, version = TStr ''2.31.0'',
       purl = Some ''pkg:pypi/requests@2.31.0'',
       properties = {Property ''cdx:poetry:package:group'' (TStr ''main'')},
       external_references =
         {ExternalReference DISTRIBUTION ''https://pypi.org/project/requests/2.31.0''
            ''Distribution file: requests-2.31.0-py3-none-any.whl'' [(''SHA-256'', ''58cd2187'')]} \<rparr>"

definition lock_gen2 :: "(string \<times> toml) list" where
  \<comment> \<open>generation 2, the same entry twice\<close>
  "lock_gen2 =
     [(''package'', TArr [TTable (requests_entry @ [(''files'', requests_files)]),
                          TTable (requests_entry @ [(''files'', requests_files)])]),
      (''metadata'', TTable [(''lock-version'', TStr ''2.0'')])]"

definition lock_gen1 :: "(string \<times> toml) list" where
  \<comment> \<open>the same packages in generation 1\<close>
  "lock_gen1 =
     [(''package'', TArr [TTable requests_entry, TTable requests_entry]),
      (''metadata'', TTable [(''lock-version'', TStr ''1.1''),
                             (''files'', TTable [(''requests'', requests_files)])])]"

definition lock_gen1_unlisted :: "(string \<times> toml) list" where
  \<comment> \<open>generation 1; \<^verbatim>\<open>metadata.files\<close> has no entry for \<^verbatim>\<open>requests\<close>\<close>
  "lock_gen1_unlisted =
     [(''package'', TArr [TTable requests_entry]),
      (''metadata'', TTable [(''lock-version'', TStr ''1.1''),
                             (''files'', TTable [(''idna'', TArr [])])])]"

definition lock_gen2_no_files :: "(string \<times> toml) list" where
  \<comment> \<open>generation 2; the entry has no \<^verbatim>\<open>files\<close> key\<close>
  "lock_gen2_no_files =
     [(''package'', TArr [TTable requests_entry]),
      (''metadata'', TTable [(''lock-version'', TStr ''2.0'')])]"

definition lock_no_name :: "(string \<times> toml) list" where
  \<comment> \<open>the second of three entries has no \<^verbatim>\<open>name\<close>\<close>
  "lock_no_name =
     [(''package'', TArr [TTable (requests_entry @ [(''files'', requests_files)]),
                          TTable [(''version'', TStr ''3.4''), (''files'', TArr [])],
                          TTable (requests_entry @ [(''files'', requests_files)])]),
      (''metadata'', TTable [(''lock-version'', TStr ''2.0'')])]"

definition lock_bare :: "(string \<times> toml) list" where
  \<comment> \<open>one package entry with inline files and nothing else: no \<^verbatim>\<open>metadata\<close> section\<close>
  "lock_bare =
     [(''package'',
       TArr [TTable [(''name'', TStr ''requests''), (''version'', TStr ''2.31.0''),
                     (''category'', TStr ''main''),
                     (''files'',
                      TArr [TTable [(''file'', TStr ''requests-2.31.0-py3-none-any.whl''),
                                    (''hash'', TStr ''sha256:58cd2187'')]])]])]"

definition lock_example :: "(string \<times> toml) list" where
  \<comment> \<open>the same entry in a document that declares generation 2\<close>
  "lock_example = lock_bare @ [(''metadata'', TTable [(''lock-version'', TStr ''2.0'')])]"

definition manifest_ok :: "(string \<times> toml) list" where
  "manifest_ok =
     [(''tool'', TTable [(''poetry'', TTable [(''name'', TStr ''demo''),
                                              (''version'', TStr ''0.1.0'')])])]"

definition manifest_no_name :: "(string \<times> toml) list" where
  \<comment> \<open>\<^verbatim>\<open>tool.poetry\<close> has a version and no name\<close>
  "manifest_no_name = [(''tool'', TTable [(''poetry'', TTable [(''version'', TStr ''0.1.0'')])])]"

definition sample_texts :: "(string \<times> (string \<times> toml) list) list" where
  \<comment> \<open>the sample texts, each named by a stand-in for its content\<close>
  "sample_texts =
     [(''gen2.lock'', lock_gen2), (''gen1.lock'', lock_gen1),
      (''gen1-unlisted.lock'', lock_gen1_unlisted), (''gen2-no-files.lock'', lock_gen2_no_files),
      (''no-name.lock'', lock_no_name), (''bare.lock'', lock_bare),
      (''example.lock'', lock_example), (''ok.toml'', manifest_ok),
      (''no-name.toml'', manifest_no_name)]"

section \<open>The diagnostic callback has no influence on the result\<close>

lemma process_package_files_fst:
  "fst (process_package_files env dm fms c s) = fst (process_package_files env dm' fms c s')"
proof (induction fms arbitrary: c s s')
  case Nil
  show ?case by simp
next
  case (Cons fm fms)
  show ?case
  proof (cases "distribution_reference env c fm")
    case (Inl e)
    then show ?thesis using Cons.IH by (simp add: Let_def)
  next
    case (Inr r)
    then show ?thesis using Cons.IH by (simp add: Let_def)
  qed
qed

lemma process_package_fst:
  "fst (process_package env u dm v md p s) = fst (process_package env u dm' v md p s')"
  unfolding process_package_def Let_def
  by (auto split: sum.splits intro: process_package_files_fst)

lemma process_packages_Cons_Inl:
  "process_package env u dm v md p s = (Inl e, t) \<Longrightarrow>
   process_packages env u dm v md (p # ps) acc s = (Inl e, t)"
  by simp

lemma process_packages_Cons_Inr:
  "process_package env u dm v md p s = (Inr c, t) \<Longrightarrow>
   process_packages env u dm v md (p # ps) acc s = process_packages env u dm v md ps (acc @ [c]) t"
  by simp

lemma process_packages_fst:
  "fst (process_packages env u dm v md ps acc s) = fst (process_packages env u dm' v md ps acc s')"
proof (induction ps arbitrary: acc s s')
  case Nil
  show ?case by simp
next
  case (Cons p ps)
  obtain r t where a: "process_package env u dm v md p s = (r, t)"
    by (cases "process_package env u dm v md p s")
  obtain r' t' where b: "process_package env u dm' v md p s' = (r', t')"
    by (cases "process_package env u dm' v md p s'")
  have eq: "r' = r"
    using process_package_fst [of env u dm v md p s dm' s'] a b by simp
  show ?case
  proof (cases r)
    case (Inl e)
    then show ?thesis
      using a b eq by (simp add: process_packages_Cons_Inl del: process_packages.simps)
  next
    case (Inr c)
    then show ?thesis
      using a b eq Cons.IH [of "acc @ [c]" t t']
      by (simp add: process_packages_Cons_Inr del: process_packages.simps)
  qed
qed



section \<open>The schema generation\<close>










section \<open>The package loop\<close>

lemma PoetryParser_loaded:
  assumes "load_toml env lock = Inr doc"
    and "py_getitem (TTable doc) (TStr ''metadata'') = Inr md"
    and "py_getitem (TTable doc) (TStr ''package'') = Inr pv"
    and "py_iter pv = Inr ps"
  shows "fst (PoetryParser env lock u dm manifest s) =
     (case fst (process_packages env u dm (poetry_lock_version md) md ps [] t) of
        Inl e \<Rightarrow> Inl e
      | Inr cs \<Rightarrow>
          (case root_metadata env manifest of
             Inl e \<Rightarrow> Inl e
           | Inr m \<Rightarrow> Inr \<lparr> components = cs, metadata = m \<rparr>))"
proof -
  let ?v = "poetry_lock_version md"
  let ?s4 = "dm ''processing poetry_lock'' []
               (dm ''detected poetry_lock_version: {!r}'' [AVersion ?v]
                 (dm ''loading poetry_lock_contents'' [] (dm ''init {}'' [AStr ''PoetryParser''] s)))"
  obtain r t' where a: "process_packages env u dm ?v md ps [] ?s4 = (r, t')"
    by (cases "process_packages env u dm ?v md ps [] ?s4")
  have "fst (process_packages env u dm ?v md ps [] t) = r"
    using process_packages_fst [of env u dm ?v md ps "[]" t dm ?s4] a by simp
  then show ?thesis
    using assms a
    by (cases r; cases "root_metadata env manifest")
       (simp_all add: PoetryParser_def PoetryParser_init_def Let_def)
qed

lemma PoetryParser_early_failure:
  assumes "load_toml env lock = Inr doc"
    and "py_getitem (TTable doc) (TStr ''metadata'') = Inl e"
  shows "fst (PoetryParser env lock u dm manifest s) = Inl e"
  using assms by (simp add: PoetryParser_def PoetryParser_init_def Let_def)

lemma process_package_state_free:
  "fst (process_package env u dm v md p s) = r \<Longrightarrow> fst (process_package env u dm v md p t) = r"
  using process_package_fst [of env u dm v md p s dm t] by simp

lemma process_packages_append:
  "process_packages env u dm v md (xs @ ys) acc s =
     (case process_packages env u dm v md xs acc s of
        (Inl e, t) \<Rightarrow> (Inl e, t)
      | (Inr cs, t) \<Rightarrow> process_packages env u dm v md ys cs t)"
proof (induction xs arbitrary: acc s)
  case Nil
  show ?case by simp
next
  case (Cons x xs)
  obtain r t where a: "process_package env u dm v md x s = (r, t)"
    by (cases "process_package env u dm v md x s")
  show ?case using a Cons.IH by (cases r) simp_all
qed

lemma process_packages_components:
  assumes "process_packages env u dm v md ps acc s = (Inr cs, s')"
  shows "\<exists>new. cs = acc @ new \<and> length new = length ps \<and>
           (\<forall>i < length ps. \<forall>t. fst (process_package env u dm v md (ps ! i) t) = Inr (new ! i))"
  using assms
proof (induction ps arbitrary: acc s)
  case Nil
  then show ?case by simp
next
  case (Cons p ps)
  obtain r t where a: "process_package env u dm v md p s = (r, t)"
    by (cases "process_package env u dm v md p s")
  show ?case
  proof (cases r)
    case (Inl e)
    then show ?thesis using a Cons.prems by simp
  next
    case (Inr c)
    then have "process_packages env u dm v md ps (acc @ [c]) t = (Inr cs, s')"
      using a Cons.prems by simp
    from Cons.IH [OF this] obtain new where
      n: "cs = (acc @ [c]) @ new" "length new = length ps"
         "\<forall>i < length ps. \<forall>t. fst (process_package env u dm v md (ps ! i) t) = Inr (new ! i)"
      by blast
    have hd: "\<forall>t'. fst (process_package env u dm v md p t') = Inr c"
      using a Inr process_package_state_free [of env u dm v md p s r] by simp
    have "\<forall>i < length (p # ps). \<forall>t.
            fst (process_package env u dm v md ((p # ps) ! i) t) = Inr ((c # new) ! i)"
    proof (intro allI impI)
      fix i t' assume "i < length (p # ps)"
      then show "fst (process_package env u dm v md ((p # ps) ! i) t') = Inr ((c # new) ! i)"
        using hd n(3) by (cases i) simp_all
    qed
    then show ?thesis using n by (intro exI [of _ "c # new"]) simp
  qed
qed

lemma process_packages_stops:
  assumes "fst (process_package env u dm v md p s0) = Inl e0"
  shows "process_packages env u dm v md (pre @ p # post) acc s =
         process_packages env u dm v md (pre @ [p]) acc s"
    and "\<exists>e. fst (process_packages env u dm v md (pre @ p # post) acc s) = Inl e"
    and "fst (process_packages env u dm v md pre acc s) = Inr cs \<Longrightarrow>
         fst (process_packages env u dm v md (pre @ p # post) acc s) = Inl e0"
proof -
  have step: "\<And>rest a t. fst (process_packages env u dm v md (p # rest) a t) = Inl e0
     \<and> process_packages env u dm v md (p # rest) a t = process_packages env u dm v md [p] a t"
  proof -
    fix rest a t
    obtain r t' where a: "process_package env u dm v md p t = (r, t')"
      by (cases "process_package env u dm v md p t")
    have "r = Inl e0"
      using process_package_state_free [OF assms, of t] a by simp
    then show "fst (process_packages env u dm v md (p # rest) a t) = Inl e0
     \<and> process_packages env u dm v md (p # rest) a t = process_packages env u dm v md [p] a t"
      using a by simp
  qed
  obtain r t where b: "process_packages env u dm v md pre acc s = (r, t)"
    by (cases "process_packages env u dm v md pre acc s")
  show "process_packages env u dm v md (pre @ p # post) acc s =
         process_packages env u dm v md (pre @ [p]) acc s"
    using b step by (cases r) (simp_all add: process_packages_append del: process_packages.simps)
  show "\<exists>e. fst (process_packages env u dm v md (pre @ p # post) acc s) = Inl e"
    using b step by (cases r) (simp_all add: process_packages_append del: process_packages.simps)
  show "fst (process_packages env u dm v md pre acc s) = Inr cs \<Longrightarrow>
         fst (process_packages env u dm v md (pre @ p # post) acc s) = Inl e0"
    using b step by (cases r) (simp_all add: process_packages_append del: process_packages.simps)
qed

lemmas sample_defs = sample_env_def sample_texts_def lock_gen2_def lock_gen1_def requests_entry_def
  requests_files_def sample_hash_def sample_purl_def requests_component_def lock_gen1_unlisted_def
  lock_gen2_no_files_def lock_no_name_def lock_bare_def lock_example_def manifest_ok_def
  manifest_no_name_def
lemmas run_defs = PoetryParser_def PoetryParser_init_def Let_def process_package_def new_component_def
  package_files_of_def distribution_reference_def root_metadata_def poetry_lock_version_def
  py_split_def py_int_def py_isspace_def is_digit_def digit_val_def quiet_def recording_def

text \<open>
  Claim C1.  When the constructor returns, the component list has one component per
  package entry of the document, and the component at position \<open>i\<close> is the one the loop
  body builds from the entry at position \<open>i\<close>: entry order is kept, and entries with the
  same name and version are not merged.
\<close>

theorem one_component_per_entry_in_order:
  assumes run: "PoetryParser env lock u dm manifest s = (Inr res, s')"
    and load: "load_toml env lock = Inr doc"
    and md: "py_getitem (TTable doc) (TStr ''metadata'') = Inr md"
    and pv: "py_getitem (TTable doc) (TStr ''package'') = Inr pv"
    and ps: "py_iter pv = Inr ps"
  shows "length (components res) = length ps \<and>
         (\<forall>i < length ps. \<forall>t.
            fst (process_package env u dm (poetry_lock_version md) md (ps ! i) t) =
              Inr (components res ! i))"
proof -
  let ?v = "poetry_lock_version md"
  obtain r t where a: "process_packages env u dm ?v md ps [] s = (r, t)"
    by (cases "process_packages env u dm ?v md ps [] s")
  have b: "Inr res =
     (case r of
        Inl e \<Rightarrow> Inl e
      | Inr cs \<Rightarrow>
          (case root_metadata env manifest of
             Inl e \<Rightarrow> Inl e
           | Inr m \<Rightarrow> Inr \<lparr> components = cs, metadata = m \<rparr>))"
    using PoetryParser_loaded [OF load md pv ps, of u dm manifest s s] run a by simp
  then obtain cs where r: "r = Inr cs" and cs: "components res = cs"
    by (cases r; cases "root_metadata env manifest") auto
  from process_packages_components [OF a [unfolded r]] cs show ?thesis by auto
qed

theorem one_component_per_entry_in_order_witness:
  "PoetryParser (sample_env sample_texts) ''gen2.lock'' False quiet [] () =
     (Inr \<lparr> components = [requests_component, requests_component], metadata = None \<rparr>, ())
   \<and> length [requests_component, requests_component] =
       length [TTable (requests_entry @ [(''files'', requests_files)]),
               TTable (requests_entry @ [(''files'', requests_files)])]
   \<and> fst (process_package (sample_env sample_texts) False quiet [2, 0]
            (TTable [(''lock-version'', TStr ''2.0'')])
            (TTable (requests_entry @ [(''files'', requests_files)])) ()) =
       Inr requests_component"
proof -
  let ?E = "sample_env sample_texts"
  let ?md = "TTable [(''lock-version'', TStr ''2.0'')]"
  let ?ps = "[TTable (requests_entry @ [(''files'', requests_files)]),
              TTable (requests_entry @ [(''files'', requests_files)])]"
  let ?res = "\<lparr> components = [requests_component, requests_component], metadata = None \<rparr>"
  have run: "PoetryParser ?E ''gen2.lock'' False quiet [] () = (Inr ?res, ())"
    by (simp add: sample_defs run_defs)
  have load: "load_toml ?E ''gen2.lock'' = Inr lock_gen2"
    by (simp add: sample_defs)
  have md: "py_getitem (TTable lock_gen2) (TStr ''metadata'') = Inr ?md"
    by (simp add: sample_defs)
  have pv: "py_getitem (TTable lock_gen2) (TStr ''package'') = Inr (TArr ?ps)"
    by (simp add: sample_defs)
  have ps: "py_iter (TArr ?ps) = Inr ?ps"
    by simp
  have v: "poetry_lock_version ?md = [2, 0]"
    by (simp add: run_defs)
  note inst = one_component_per_entry_in_order [OF run load md pv ps]
  from inst have "length (components ?res) = length ?ps" by (rule conjunct1)
  moreover from inst have "\<forall>i < length ?ps. \<forall>t::unit.
        fst (process_package ?E False quiet (poetry_lock_version ?md) ?md (?ps ! i) t) =
          Inr (components ?res ! i)"
    by (rule conjunct2)
  then have "1 < length ?ps \<longrightarrow> (\<forall>t::unit.
        fst (process_package ?E False quiet (poetry_lock_version ?md) ?md (?ps ! 1) t) =
          Inr (components ?res ! 1))"
    by (rule spec)
  then have
    "fst (process_package ?E False quiet (poetry_lock_version ?md) ?md (?ps ! 1) ()) =
       Inr (components ?res ! 1)"
    by simp
  ultimately show ?thesis using run v by simp
qed

section \<open>Package entries that end the conversion\<close>

lemma new_component_no_name:
  "map_of kvs ''name'' = None \<Longrightarrow>
   new_component env u (TTable kvs) = Inl (KeyError (TStr ''name''))"
  by (simp add: new_component_def)

lemma new_component_no_version:
  "map_of kvs ''name'' = Some n \<Longrightarrow> map_of kvs ''version'' = None \<Longrightarrow>
   new_component env u (TTable kvs) = Inl (KeyError (TStr ''version''))"
  by (simp add: new_component_def)

lemma process_package_new_component_fails:
  "new_component env u p = Inl e \<Longrightarrow> fst (process_package env u dm v md p s) = Inl e"
  by (simp add: process_package_def Let_def)

lemma process_package_files_fail:
  "new_component env u p = Inr c \<Longrightarrow> package_files_of v md p = Inl e \<Longrightarrow>
   fst (process_package env u dm v md p s) = Inl e"
  by (simp add: process_package_def Let_def)

lemma process_package_no_files_fails:
  "package_files_of v md p = Inl e \<Longrightarrow> \<exists>e'. fst (process_package env u dm v md p s) = Inl e'"
  by (cases "new_component env u p") (simp_all add: process_package_def Let_def)

lemma PoetryParser_entry_failure:
  assumes load: "load_toml env lock = Inr doc"
    and pv: "py_getitem (TTable doc) (TStr ''package'') = Inr pv"
    and ps: "py_iter pv = Inr (pre @ p # post)"
    and bad: "\<And>md. py_getitem (TTable doc) (TStr ''metadata'') = Inr md \<Longrightarrow>
                \<exists>e. fst (process_package env u dm (poetry_lock_version md) md p s) = Inl e"
  shows "\<exists>e. fst (PoetryParser env lock u dm manifest s) = Inl e"
proof (cases "py_getitem (TTable doc) (TStr ''metadata'')")
  case (Inl e)
  then show ?thesis using PoetryParser_early_failure [OF load Inl, of u dm manifest s] by auto
next
  case (Inr md)
  from bad [OF Inr] obtain e0 where
    e0: "fst (process_package env u dm (poetry_lock_version md) md p s) = Inl e0" ..
  from process_packages_stops(2) [OF e0, of pre post "[]" s] obtain e where
    "fst (process_packages env u dm (poetry_lock_version md) md (pre @ p # post) [] s) = Inl e" ..
  then show ?thesis
    using PoetryParser_loaded [OF load Inr pv ps, of u dm manifest s s] by simp
qed

text \<open>
  Claim C7.  If a package entry has no \<^verbatim>\<open>name\<close> or no \<^verbatim>\<open>version\<close>, the constructor
  raises: its outcome is an exception, so no component list reaches the caller.  The loop
  stops at that entry: running it on the whole list gives the same outcome and the same
  diagnostic trace as running it on the list cut after the entry, and when the entries
  before it were converted, the exception is the \<^verbatim>\<open>KeyError\<close> of the missing field.
\<close>

theorem missing_name_or_version_is_fatal:
  assumes load: "load_toml env lock = Inr doc"
    and pv: "py_getitem (TTable doc) (TStr ''package'') = Inr pv"
    and ps: "py_iter pv = Inr (pre @ TTable kvs # post)"
    and miss: "map_of kvs ''name'' = None \<or> map_of kvs ''version'' = None"
  shows "(\<exists>e. fst (PoetryParser env lock u dm manifest s) = Inl e)
    \<and> process_packages env u dm v md (pre @ TTable kvs # post) acc t =
        process_packages env u dm v md (pre @ [TTable kvs]) acc t
    \<and> (\<forall>cs. fst (process_packages env u dm v md pre acc t) = Inr cs \<longrightarrow>
          fst (process_packages env u dm v md (pre @ TTable kvs # post) acc t) =
            Inl (KeyError (TStr (if map_of kvs ''name'' = None then ''name'' else ''version''))))"
proof -
  let ?e = "KeyError (TStr (if map_of kvs ''name'' = None then ''name'' else ''version''))"
  have nc: "new_component env u (TTable kvs) = Inl ?e"
    using miss new_component_no_name [of kvs env u] new_component_no_version [of kvs _ env u]
    by (cases "map_of kvs ''name''") auto
  have pp: "\<And>v md s. fst (process_package env u dm v md (TTable kvs) s) = Inl ?e"
    using nc by (rule process_package_new_component_fails)
  have 1: "\<exists>e. fst (PoetryParser env lock u dm manifest s) = Inl e"
    using pp by (intro PoetryParser_entry_failure [OF load pv ps]) blast
  have 2: "process_packages env u dm v md (pre @ TTable kvs # post) acc t =
        process_packages env u dm v md (pre @ [TTable kvs]) acc t"
    by (rule process_packages_stops(1) [OF pp])
  have 3: "\<forall>cs. fst (process_packages env u dm v md pre acc t) = Inr cs \<longrightarrow>
          fst (process_packages env u dm v md (pre @ TTable kvs # post) acc t) = Inl ?e"
    using process_packages_stops(3) [OF pp] by blast
  show ?thesis using 1 2 3 by blast
qed

theorem missing_name_or_version_is_fatal_witness:
  "(\<exists>e. fst (PoetryParser (sample_env sample_texts) ''no-name.lock'' False recording [] []) = Inl e)
   \<and> process_packages (sample_env sample_texts) False recording [2, 0]
        (TTable [(''lock-version'', TStr ''2.0'')])
        ([TTable (requests_entry @ [(''files'', requests_files)])]
           @ TTable [(''version'', TStr ''3.4''), (''files'', TArr [])]
           # [TTable (requests_entry @ [(''files'', requests_files)])]) [] [] =
      process_packages (sample_env sample_texts) False recording [2, 0]
        (TTable [(''lock-version'', TStr ''2.0'')])
        ([TTable (requests_entry @ [(''files'', requests_files)])]
           @ [TTable [(''version'', TStr ''3.4''), (''files'', TArr [])]]) [] []
   \<and> fst (process_packages (sample_env sample_texts) False recording [2, 0]
        (TTable [(''lock-version'', TStr ''2.0'')])
        ([TTable (requests_entry @ [(''files'', requests_files)])]
           @ TTable [(''version'', TStr ''3.4''), (''files'', TArr [])]
           # [TTable (requests_entry @ [(''files'', requests_files)])]) [] []) =
      Inl (KeyError (TStr ''name''))"
proof -
  let ?E = "sample_env sample_texts"
  let ?md = "TTable [(''lock-version'', TStr ''2.0'')]"
  let ?pre = "[TTable (requests_entry @ [(''files'', requests_files)])]"
  let ?kvs = "[(''version'', TStr ''3.4''), (''files'', TArr [])]"
  have load: "load_toml ?E ''no-name.lock'' = Inr lock_no_name"
    by (simp add: sample_defs)
  have pv: "py_getitem (TTable lock_no_name) (TStr ''package'') =
      Inr (TArr (?pre @ TTable ?kvs # ?pre))"
    by (simp add: sample_defs)
  have ps: "py_iter (TArr (?pre @ TTable ?kvs # ?pre)) = Inr (?pre @ TTable ?kvs # ?pre)"
    by simp
  have miss: "map_of ?kvs ''name'' = None \<or> map_of ?kvs ''version'' = None"
    by simp
  have before: "fst (process_packages ?E False recording [2, 0] ?md ?pre [] []) =
      Inr [requests_component]"
    by (simp add: sample_defs run_defs)
  note inst = missing_name_or_version_is_fatal [OF load pv ps miss,
      where u = False and dm = recording and manifest = "[]" and s = "[]" and v = "[2, 0]"
        and md = ?md and acc = "[]" and t = "[]"]
  have key: "(if map_of ?kvs ''name'' = None then ''name'' else ''version'') = ''name''"
    by simp
  from inst have c1:
    "\<exists>e. fst (PoetryParser ?E ''no-name.lock'' False recording [] []) = Inl e"
    by (rule conjunct1)
  from inst have c2:
    "process_packages ?E False recording [2, 0] ?md (?pre @ TTable ?kvs # ?pre) [] [] =
     process_packages ?E False recording [2, 0] ?md (?pre @ [TTable ?kvs]) [] []"
    by blast
  from inst before have c3:
    "fst (process_packages ?E False recording [2, 0] ?md (?pre @ TTable ?kvs # ?pre) [] []) =
     Inl (KeyError (TStr (if map_of ?kvs ''name'' = None then ''name'' else ''version'')))"
    by blast
  show ?thesis using c1 c2 c3 [unfolded key] by (intro conjI)
qed

text \<open>
  Claim C10.  In a document of generation \<open>(2,)\<close> or later, a package entry without the
  \<^verbatim>\<open>files\<close> key makes the constructor raise; where the entry is otherwise well formed
  the exception is \<^verbatim>\<open>KeyError('files')\<close>.  No component with zero references is made.
\<close>

theorem missing_files_key_is_fatal:
  assumes load: "load_toml env lock = Inr doc"
    and md: "py_getitem (TTable doc) (TStr ''metadata'') = Inr md"
    and gen: "tuple_ge (poetry_lock_version md) [2]"
    and pv: "py_getitem (TTable doc) (TStr ''package'') = Inr pv"
    and ps: "py_iter pv = Inr (pre @ TTable kvs # post)"
    and nofiles: "map_of kvs ''files'' = None"
  shows "(\<exists>e. fst (PoetryParser env lock u dm manifest s) = Inl e)
    \<and> (\<forall>c. new_component env u (TTable kvs) = Inr c \<longrightarrow>
          fst (process_package env u dm (poetry_lock_version md) md (TTable kvs) t) =
            Inl (KeyError (TStr ''files'')))"
proof -
  have pf: "package_files_of (poetry_lock_version md) md (TTable kvs) = Inl (KeyError (TStr ''files''))"
    using gen nofiles by (simp add: package_files_of_def)
  have "\<And>md'. py_getitem (TTable doc) (TStr ''metadata'') = Inr md' \<Longrightarrow>
          \<exists>e. fst (process_package env u dm (poetry_lock_version md') md' (TTable kvs) s) = Inl e"
    using md pf process_package_no_files_fails by fastforce
  then have 1: "\<exists>e. fst (PoetryParser env lock u dm manifest s) = Inl e"
    by (rule PoetryParser_entry_failure [OF load pv ps])
  have 2: "\<forall>c. new_component env u (TTable kvs) = Inr c \<longrightarrow>
          fst (process_package env u dm (poetry_lock_version md) md (TTable kvs) t) =
            Inl (KeyError (TStr ''files''))"
    using pf by (auto intro: process_package_files_fail)
  show ?thesis using 1 2 by blast
qed

theorem missing_files_key_is_fatal_witness:
  "(\<exists>e. fst (PoetryParser (sample_env sample_texts) ''gen2-no-files.lock'' False quiet [] ()) = Inl e)
   \<and> fst (process_package (sample_env sample_texts) False quiet [2, 0]
        (TTable [(''lock-version'', TStr ''2.0'')]) (TTable requests_entry) ()) =
      Inl (KeyError (TStr ''files''))"
proof -
  let ?E = "sample_env sample_texts"
  let ?md = "TTable [(''lock-version'', TStr ''2.0'')]"
  have load: "load_toml ?E ''gen2-no-files.lock'' = Inr lock_gen2_no_files"
    by (simp add: sample_defs)
  have md: "py_getitem (TTable lock_gen2_no_files) (TStr ''metadata'') = Inr ?md"
    by (simp add: sample_defs)
  have v: "poetry_lock_version ?md = [2, 0]"
    by (simp add: run_defs)
  have gen: "tuple_ge (poetry_lock_version ?md) [2]"
    by (simp add: v)
  have pv: "py_getitem (TTable lock_gen2_no_files) (TStr ''package'') =
      Inr (TArr ([] @ TTable requests_entry # []))"
    by (simp add: sample_defs)
  have ps: "py_iter (TArr ([] @ TTable requests_entry # [])) = Inr ([] @ TTable requests_entry # [])"
    by simp
  have nofiles: "map_of requests_entry ''files'' = None"
    by (simp add: sample_defs)
  have nc: "new_component ?E False (TTable requests_entry) =
      Inr (requests_component\<lparr>external_references := {}\<rparr>)"
    by (simp add: sample_defs run_defs)
  note inst = missing_files_key_is_fatal [OF load md gen pv ps nofiles,
      where u = False and dm = quiet and manifest = "[]" and s = "()" and t = "()"]
  show ?thesis using inst nc v by simp
qed

text \<open>
  Claim C3, as the code has it.  In a document of a generation before \<open>(2,)\<close>, a package
  entry whose name is not a key of the table \<^verbatim>\<open>metadata.files\<close> makes the constructor
  raise; where the entry is otherwise well formed the exception is the \<^verbatim>\<open>KeyError\<close> of
  the package name.  (The claim said: zero file descriptors and no failure.)
\<close>

theorem unlisted_package_is_fatal_in_old_schema:
  assumes load: "load_toml env lock = Inr doc"
    and md: "py_getitem (TTable doc) (TStr ''metadata'') = Inr md"
    and gen: "\<not> tuple_ge (poetry_lock_version md) [2]"
    and pv: "py_getitem (TTable doc) (TStr ''package'') = Inr pv"
    and ps: "py_iter pv = Inr (pre @ TTable kvs # post)"
    and nm: "map_of kvs ''name'' = Some (TStr n)"
    and files: "py_getitem md (TStr ''files'') = Inr (TTable ft)"
    and absent: "map_of ft n = None"
  shows "(\<exists>e. fst (PoetryParser env lock u dm manifest s) = Inl e)
    \<and> (\<forall>c. new_component env u (TTable kvs) = Inr c \<longrightarrow>
          fst (process_package env u dm (poetry_lock_version md) md (TTable kvs) t) =
            Inl (KeyError (TStr n)))"
proof -
  have pf: "package_files_of (poetry_lock_version md) md (TTable kvs) = Inl (KeyError (TStr n))"
    using gen nm files absent by (simp add: package_files_of_def)
  have "\<And>md'. py_getitem (TTable doc) (TStr ''metadata'') = Inr md' \<Longrightarrow>
          \<exists>e. fst (process_package env u dm (poetry_lock_version md') md' (TTable kvs) s) = Inl e"
    using md pf process_package_no_files_fails by fastforce
  then have 1: "\<exists>e. fst (PoetryParser env lock u dm manifest s) = Inl e"
    by (rule PoetryParser_entry_failure [OF load pv ps])
  have 2: "\<forall>c. new_component env u (TTable kvs) = Inr c \<longrightarrow>
          fst (process_package env u dm (poetry_lock_version md) md (TTable kvs) t) =
            Inl (KeyError (TStr n))"
    using pf by (auto intro: process_package_files_fail)
  show ?thesis using 1 2 by blast
qed

theorem unlisted_package_is_fatal_in_old_schema_witness:
  "(\<exists>e. fst (PoetryParser (sample_env sample_texts) ''gen1-unlisted.lock'' False quiet [] ()) = Inl e)
   \<and> fst (process_package (sample_env sample_texts) False quiet [1, 1]
        (TTable [(''lock-version'', TStr ''1.1''), (''files'', TTable [(''idna'', TArr [])])])
        (TTable requests_entry) ()) =
      Inl (KeyError (TStr ''requests''))"
proof -
  let ?E = "sample_env sample_texts"
  let ?md = "TTable [(''lock-version'', TStr ''1.1''), (''files'', TTable [(''idna'', TArr [])])]"
  have load: "load_toml ?E ''gen1-unlisted.lock'' = Inr lock_gen1_unlisted"
    by (simp add: sample_defs)
  have md: "py_getitem (TTable lock_gen1_unlisted) (TStr ''metadata'') = Inr ?md"
    by (simp add: sample_defs)
  have v: "poetry_lock_version ?md = [1, 1]"
    by (simp add: run_defs)
  have gen: "\<not> tuple_ge (poetry_lock_version ?md) [2]"
    by (simp add: v)
  have pv: "py_getitem (TTable lock_gen1_unlisted) (TStr ''package'') =
      Inr (TArr ([] @ TTable requests_entry # []))"
    by (simp add: sample_defs)
  have ps: "py_iter (TArr ([] @ TTable requests_entry # [])) = Inr ([] @ TTable requests_entry # [])"
    by simp
  have nm: "map_of requests_entry ''name'' = Some (TStr ''requests'')"
    by (simp add: sample_defs)
  have files: "py_getitem ?md (TStr ''files'') = Inr (TTable [(''idna'', TArr [])])"
    by simp
  have absent: "map_of [(''idna'', TArr [])] ''requests'' = None"
    by simp
  have nc: "new_component ?E False (TTable requests_entry) =
      Inr (requests_component\<lparr>external_references := {}\<rparr>)"
    by (simp add: sample_defs run_defs)
  note inst = unlisted_package_is_fatal_in_old_schema [OF load md gen pv ps nm files absent,
      where u = False and dm = quiet and manifest = "[]" and s = "()" and t = "()"]
  show ?thesis using inst nc v by simp
qed

text \<open>
  The claim C3 itself fails on a generation-1 document whose \<^verbatim>\<open>metadata.files\<close> lists only
  \<^verbatim>\<open>idna\<close> while its one package entry is \<^verbatim>\<open>requests\<close>: the constructor raises
  \<^verbatim>\<open>KeyError('requests')\<close>.
\<close>

theorem unlisted_package_counterexample:
  "load_toml (sample_env sample_texts) ''gen1-unlisted.lock'' = Inr lock_gen1_unlisted
   \<and> py_getitem (TTable lock_gen1_unlisted) (TStr ''metadata'') =
       Inr (TTable [(''lock-version'', TStr ''1.1''), (''files'', TTable [(''idna'', TArr [])])])
   \<and> poetry_lock_version
        (TTable [(''lock-version'', TStr ''1.1''), (''files'', TTable [(''idna'', TArr [])])]) = [1, 1]
   \<and> \<not> tuple_ge [1, 1] [2]
   \<and> py_getitem (TTable lock_gen1_unlisted) (TStr ''package'') = Inr (TArr [TTable requests_entry])
   \<and> map_of requests_entry ''name'' = Some (TStr ''requests'')
   \<and> map_of [(''idna'', TArr [])] ''requests'' = None
   \<and> fst (PoetryParser (sample_env sample_texts) ''gen1-unlisted.lock'' False quiet [] ()) =
       Inl (KeyError (TStr ''requests''))"
  by (simp add: sample_defs run_defs)

section \<open>File descriptors whose hash does not parse\<close>







lemma process_package_reaches_files:
  assumes "new_component env u p = Inr c0"
    and "package_files_of v md p = Inr files"
    and "py_iter files = Inr fms"
  shows "process_package env u dm v md p s =
         process_package_files env dm fms c0
           (dm ''processing package_files: {!r}'' [AToml files]
              (dm ''detecting package_files'' []
                 (dm ''processing package: {!r}'' [AToml p] s)))"
  using assms by (simp add: process_package_def Let_def)



section \<open>The two schema generations\<close>

lemma same_package_new_component:
  assumes "same_package md1 p1 p2"
  shows "new_component env u p1 = new_component env u p2"
proof -
  have n: "py_getitem p1 (TStr ''name'') = py_getitem p2 (TStr ''name'')"
    and v: "py_getitem p1 (TStr ''version'') = py_getitem p2 (TStr ''version'')"
    and c: "py_get p1 ''category'' = py_get p2 ''category''"
    using assms by (simp_all add: same_package_def)
  show ?thesis
    unfolding new_component_def n v c ..
qed

lemma same_package_files:
  assumes "same_package md1 p1 p2" and "\<not> tuple_ge v1 [2]" and "tuple_ge v2 [2]"
  shows "package_files_of v1 md1 p1 = package_files_of v2 md2 p2"
  using assms
  by (auto simp: same_package_def package_files_of_def split: sum.splits)

lemma same_package_process_package:
  assumes same: "same_package md1 p1 p2" and g1: "\<not> tuple_ge v1 [2]" and g2: "tuple_ge v2 [2]"
  shows "fst (process_package env u dm v1 md1 p1 s) = fst (process_package env u dm' v2 md2 p2 s')"
proof -
  note nc = same_package_new_component [OF same, of env u]
  note pf = same_package_files [OF same g1 g2, of md2]
  show ?thesis
  proof (cases "new_component env u p2")
    case (Inl e)
    then show ?thesis using nc by (simp add: process_package_def Let_def)
  next
    case c: (Inr c)
    show ?thesis
    proof (cases "package_files_of v2 md2 p2")
      case (Inl e)
      then show ?thesis using nc pf c by (simp add: process_package_def Let_def)
    next
      case f: (Inr files)
      show ?thesis
      proof (cases "py_iter files")
        case (Inl e)
        then show ?thesis using nc pf c f by (simp add: process_package_def Let_def)
      next
        case (Inr fms)
        then show ?thesis
          using nc pf c f
            process_package_reaches_files [of env u p1 c v1 md1 files fms dm s]
            process_package_reaches_files [of env u p2 c v2 md2 files fms dm' s']
            process_package_files_fst [of env dm fms c _ dm' _]
          by simp
      qed
    qed
  qed
qed


lemma same_package_process_packages:
  assumes "list_all2 (same_package md1) ps1 ps2"
    and g1: "\<not> tuple_ge v1 [2]" and g2: "tuple_ge v2 [2]"
  shows "fst (process_packages env u dm v1 md1 ps1 acc s) =
         fst (process_packages env u dm' v2 md2 ps2 acc s')"
  using assms(1)
proof (induction ps1 ps2 arbitrary: acc s s' rule: list_all2_induct)
  case Nil
  show ?case by simp
next
  case (Cons p1 ps1 p2 ps2)
  obtain r t where a: "process_package env u dm v1 md1 p1 s = (r, t)"
    by (cases "process_package env u dm v1 md1 p1 s")
  obtain r' t' where b: "process_package env u dm' v2 md2 p2 s' = (r', t')"
    by (cases "process_package env u dm' v2 md2 p2 s'")
  have eq: "r' = r"
    using same_package_process_package [OF Cons.hyps(1) g1 g2, of env u dm s dm' md2 s'] a b
    by simp
  show ?case
  proof (cases r)
    case (Inl e)
    then show ?thesis
      using a b eq by (simp add: process_packages_Cons_Inl del: process_packages.simps)
  next
    case (Inr c)
    then show ?thesis
      using a b eq Cons.IH [of "acc @ [c]" t t']
      by (simp add: process_packages_Cons_Inr del: process_packages.simps)
  qed
qed

text \<open>
  Claim C4.  Take a document of a generation before \<open>(2,)\<close> and a document of generation
  \<open>(2,)\<close> or later whose package entries correspond one to one by \<open>same_package\<close>:
  equal name, version and category, and the file descriptors that the first document
  lists under the package name in \<^verbatim>\<open>metadata.files\<close> are the ones the second has
  inline.  With the same collaborators, identifier mode and manifest, the constructor has
  the same outcome on both: the same component list (names, versions, identifiers,
  properties, external references) and root metadata, or the same exception.
\<close>

theorem generations_agree:
  assumes l1: "load_toml env lock1 = Inr doc1"
    and l2: "load_toml env lock2 = Inr doc2"
    and m1: "py_getitem (TTable doc1) (TStr ''metadata'') = Inr md1"
    and m2: "py_getitem (TTable doc2) (TStr ''metadata'') = Inr md2"
    and g1: "\<not> tuple_ge (poetry_lock_version md1) [2]"
    and g2: "tuple_ge (poetry_lock_version md2) [2]"
    and p1: "py_getitem (TTable doc1) (TStr ''package'') = Inr pv1"
    and p2: "py_getitem (TTable doc2) (TStr ''package'') = Inr pv2"
    and i1: "py_iter pv1 = Inr ps1"
    and i2: "py_iter pv2 = Inr ps2"
    and same: "list_all2 (same_package md1) ps1 ps2"
  shows "fst (PoetryParser env lock1 u dm manifest s) =
         fst (PoetryParser env lock2 u dm' manifest s')"
proof -
  have "fst (process_packages env u dm (poetry_lock_version md1) md1 ps1 [] s) =
        fst (process_packages env u dm' (poetry_lock_version md2) md2 ps2 [] s')"
    using same g1 g2 by (rule same_package_process_packages)
  then show ?thesis
    using PoetryParser_loaded [OF l1 m1 p1 i1, of u dm manifest s s]
          PoetryParser_loaded [OF l2 m2 p2 i2, of u dm' manifest s' s']
    by simp
qed

theorem generations_agree_witness:
  "fst (PoetryParser (sample_env sample_texts) ''gen1.lock'' True recording [] []) =
   fst (PoetryParser (sample_env sample_texts) ''gen2.lock'' True quiet [] ())
   \<and> fst (PoetryParser (sample_env sample_texts) ''gen2.lock'' True quiet [] ()) =
     Inr \<lparr> components =
             [requests_component\<lparr>bom_ref := Some ''pkg:pypi/requests@2.31.0''\<rparr>,
              requests_component\<lparr>bom_ref := Some ''pkg:pypi/requests@2.31.0''\<rparr>],
           metadata = None \<rparr>"
proof -
  let ?E = "sample_env sample_texts"
  let ?md1 = "TTable [(''lock-version'', TStr ''1.1''),
                      (''files'', TTable [(''requests'', requests_files)])]"
  let ?md2 = "TTable [(''lock-version'', TStr ''2.0'')]"
  let ?ps1 = "[TTable requests_entry, TTable requests_entry]"
  let ?ps2 = "[TTable (requests_entry @ [(''files'', requests_files)]),
               TTable (requests_entry @ [(''files'', requests_files)])]"
  have l1: "load_toml ?E ''gen1.lock'' = Inr lock_gen1"
    and l2: "load_toml ?E ''gen2.lock'' = Inr lock_gen2"
    by (simp_all add: sample_defs)
  have m1: "py_getitem (TTable lock_gen1) (TStr ''metadata'') = Inr ?md1"
    and m2: "py_getitem (TTable lock_gen2) (TStr ''metadata'') = Inr ?md2"
    by (simp_all add: sample_defs)
  have g1: "\<not> tuple_ge (poetry_lock_version ?md1) [2]"
    and g2: "tuple_ge (poetry_lock_version ?md2) [2]"
    by (simp_all add: run_defs)
  have p1: "py_getitem (TTable lock_gen1) (TStr ''package'') = Inr (TArr ?ps1)"
    and p2: "py_getitem (TTable lock_gen2) (TStr ''package'') = Inr (TArr ?ps2)"
    by (simp_all add: sample_defs)
  have i1: "py_iter (TArr ?ps1) = Inr ?ps1" and i2: "py_iter (TArr ?ps2) = Inr ?ps2"
    by simp_all
  have same: "list_all2 (same_package ?md1) ?ps1 ?ps2"
    by (simp add: same_package_def sample_defs)
  have agree: "fst (PoetryParser ?E ''gen1.lock'' True recording [] []) =
      fst (PoetryParser ?E ''gen2.lock'' True quiet [] ())"
    by (rule generations_agree [OF l1 l2 m1 m2 g1 g2 p1 p2 i1 i2 same])
  have run: "fst (PoetryParser ?E ''gen2.lock'' True quiet [] ()) =
     Inr \<lparr> components =
             [requests_component\<lparr>bom_ref := Some ''pkg:pypi/requests@2.31.0''\<rparr>,
              requests_component\<lparr>bom_ref := Some ''pkg:pypi/requests@2.31.0''\<rparr>],
           metadata = None \<rparr>"
    by (simp add: sample_defs run_defs)
  show ?thesis using agree run by (intro conjI)
qed

section \<open>The worked example\<close>

text \<open>
  Claim C6, as the code has it.  Take a lock document whose metadata section declares
  generation \<open>(2,)\<close> or later and whose only package entry is \<^verbatim>\<open>requests\<close> 2.31.0 of
  category \<^verbatim>\<open>main\<close> with the one file \<^verbatim>\<open>requests-2.31.0-py3-none-any.whl\<close> and a
  \<^verbatim>\<open>sha256\<close> hash that the hash parser accepts, and no manifest.  Where the package URL
  and the URI wrapper accept their arguments, the result is exactly one component named
  \<^verbatim>\<open>requests\<close> with version \<^verbatim>\<open>2.31.0\<close>, the one property of the package group with
  value \<^verbatim>\<open>main\<close>, the one reference of type distribution with the comment
  \<^verbatim>\<open>Distribution file: requests-2.31.0-py3-none-any.whl\<close> and the parsed hash, and no
  root metadata.  (The claim said this of every document with that package entry.)
\<close>

theorem single_requests_entry_example:
  assumes load: "load_toml env lock = Inr doc"
    and md: "py_getitem (TTable doc) (TStr ''metadata'') = Inr md"
    and gen: "tuple_ge (poetry_lock_version md) [2]"
    and pv: "py_getitem (TTable doc) (TStr ''package'') =
        Inr (TArr [TTable [(''name'', TStr ''requests''), (''version'', TStr ''2.31.0''),
                           (''category'', TStr ''main''),
                           (''files'',
                            TArr [TTable [(''file'', TStr ''requests-2.31.0-py3-none-any.whl''),
                                          (''hash'', TStr (''sha256:'' @ digest))]])]])"
    and purl: "PackageURL env (TStr ''requests'') (TStr ''2.31.0'') = Inr p"
    and c0: "c0 = \<lparr> name = TStr ''requests'',
                     bom_ref = (if u then Some (to_string env p) else None),
                     version = TStr ''2.31.0'', purl = Some p,
                     properties = {Property (PackageGroup env) (TStr ''main'')},
                     external_references = {} \<rparr>"
    and uri: "XsUri env (get_pypi_url env c0) = Inr url"
    and valid: "from_composite_str env (TStr (''sha256:'' @ digest)) = Inr h"
  shows "fst (PoetryParser env lock u dm [] s) =
     Inr \<lparr> components =
             [c0\<lparr>external_references :=
                   {ExternalReference DISTRIBUTION url
                      ''Distribution file: requests-2.31.0-py3-none-any.whl'' [h]}\<rparr>],
           metadata = None \<rparr>"
proof -
  let ?entry = "TTable [(''name'', TStr ''requests''), (''version'', TStr ''2.31.0''),
                           (''category'', TStr ''main''),
                           (''files'',
                            TArr [TTable [(''file'', TStr ''requests-2.31.0-py3-none-any.whl''),
                                          (''hash'', TStr (''sha256:'' @ digest))]])]"
  let ?d = "TTable [(''file'', TStr ''requests-2.31.0-py3-none-any.whl''),
                    (''hash'', TStr (''sha256:'' @ digest))]"
  let ?r = "ExternalReference DISTRIBUTION url
              ''Distribution file: requests-2.31.0-py3-none-any.whl'' [h]"
  have nc: "new_component env u ?entry = Inr c0"
    using purl c0 by (simp add: new_component_def)
  have pf: "package_files_of (poetry_lock_version md) md ?entry = Inr (TArr [?d])"
    using gen by (simp add: package_files_of_def)
  have dr: "distribution_reference env c0 ?d = Inr ?r"
    using uri valid by (simp add: distribution_reference_def)
  have "fst (process_package env u dm (poetry_lock_version md) md ?entry s) =
        Inr (c0\<lparr>external_references := {?r}\<rparr>)"
    using nc pf dr c0 by (simp add: process_package_def Let_def)
  then have "fst (process_packages env u dm (poetry_lock_version md) md [?entry] [] s) =
        Inr [c0\<lparr>external_references := {?r}\<rparr>]"
    by (cases "process_package env u dm (poetry_lock_version md) md ?entry s") simp
  moreover have "py_iter (TArr [?entry]) = Inr [?entry]" by simp
  moreover have "root_metadata env [] = Inr None" by (simp add: root_metadata_def)
  ultimately show ?thesis
    using PoetryParser_loaded [OF load md pv, of "[?entry]" u dm "[]" s s] by simp
qed

theorem single_requests_entry_example_witness:
  "fst (PoetryParser (sample_env sample_texts) ''example.lock'' False quiet [] ()) =
     Inr \<lparr> components = [requests_component], metadata = None \<rparr>"
proof -
  let ?E = "sample_env sample_texts"
  have load: "load_toml ?E ''example.lock'' = Inr lock_example"
    by (simp add: sample_defs)
  have md: "py_getitem (TTable lock_example) (TStr ''metadata'') =
      Inr (TTable [(''lock-version'', TStr ''2.0'')])"
    by (simp add: sample_defs)
  have gen: "tuple_ge (poetry_lock_version (TTable [(''lock-version'', TStr ''2.0'')])) [2]"
    by (simp add: run_defs)
  have pv: "py_getitem (TTable lock_example) (TStr ''package'') =
        Inr (TArr [TTable [(''name'', TStr ''requests''), (''version'', TStr ''2.31.0''),
                           (''category'', TStr ''main''),
                           (''files'',
                            TArr [TTable [(''file'', TStr ''requests-2.31.0-py3-none-any.whl''),
                                          (''hash'', TStr (''sha256:'' @ ''58cd2187''))]])]])"
    by (simp add: sample_defs)
  have purl: "PackageURL ?E (TStr ''requests'') (TStr ''2.31.0'') = Inr ''pkg:pypi/requests@2.31.0''"
    by (simp add: sample_defs)
  have c0: "requests_component\<lparr>external_references := {}\<rparr> =
      \<lparr> name = TStr ''requests'',
        bom_ref = (if False then Some (to_string ?E ''pkg:pypi/requests@2.31.0'') else None),
        version = TStr ''2.31.0'', purl = Some ''pkg:pypi/requests@2.31.0'',
        properties = {Property (PackageGroup ?E) (TStr ''main'')},
        external_references = {} \<rparr>"
    by (simp add: sample_defs)
  have uri: "XsUri ?E (get_pypi_url ?E (requests_component\<lparr>external_references := {}\<rparr>)) =
      Inr ''https://pypi.org/project/requests/2.31.0''"
    by (simp add: sample_defs)
  have valid: "from_composite_str ?E (TStr (''sha256:'' @ ''58cd2187'')) =
      Inr (''SHA-256'', ''58cd2187'')"
    by (simp add: sample_defs run_defs)
  note inst = single_requests_entry_example [OF load md gen pv purl c0 uri valid,
      where dm = quiet and s = "()"]
  then show ?thesis by (simp add: requests_component_def)
qed

text \<open>
  The claim C6 itself fails on the document that holds the package entry and nothing else:
  the constructor reads \<^verbatim>\<open>poetry_lock['metadata']\<close> first and raises
  \<^verbatim>\<open>KeyError('metadata')\<close>.
\<close>

theorem single_requests_entry_counterexample:
  "load_toml (sample_env sample_texts) ''bare.lock'' = Inr lock_bare
   \<and> py_iter (TArr [TTable [(''name'', TStr ''requests''), (''version'', TStr ''2.31.0''),
                           (''category'', TStr ''main''),
                           (''files'',
                            TArr [TTable [(''file'', TStr ''requests-2.31.0-py3-none-any.whl''),
                                          (''hash'', TStr ''sha256:58cd2187'')]])]]) =
       py_iter (the (map_of lock_bare ''package''))
   \<and> from_composite_str (sample_env sample_texts) (TStr ''sha256:58cd2187'') =
       Inr (''SHA-256'', ''58cd2187'')
   \<and> fst (PoetryParser (sample_env sample_texts) ''bare.lock'' False quiet [] ()) =
       Inl (KeyError (TStr ''metadata''))"
  by (simp add: sample_defs run_defs)

section \<open>The manifest\<close>

lemma root_metadata_none: "root_metadata env [] = Inr None"
  by (simp add: root_metadata_def)

lemma PoetryParser_root_failure:
  assumes "root_metadata env manifest = Inl e"
  shows "\<exists>e'. fst (PoetryParser env lock u dm manifest s) = Inl e'"
  using assms
  by (auto simp: PoetryParser_def PoetryParser_init_def Let_def split: sum.splits prod.splits)

lemma PoetryParser_without_manifest:
  assumes "fst (PoetryParser env lock u dm manifest s) = Inr res"
  shows "fst (PoetryParser env lock u dm [] s) = Inr (res\<lparr>metadata := None\<rparr>)"
  using assms
  by (auto simp: PoetryParser_def PoetryParser_init_def Let_def root_metadata_none
           split: sum.splits prod.splits)

lemma root_metadata_table:
  assumes "manifest \<noteq> []" and "load_toml env manifest = Inr m"
    and "map_of m ''tool'' = Some (TTable t)" and "map_of t ''poetry'' = Some (TTable p)"
  shows "root_metadata env manifest =
     (case map_of p ''name'' of
        None \<Rightarrow> Inl (KeyError (TStr ''name''))
      | Some n \<Rightarrow>
          (case map_of p ''version'' of
             None \<Rightarrow> Inl (KeyError (TStr ''version''))
           | Some v \<Rightarrow>
               Inr (Some (BomMetaData
                 \<lparr> name = n, bom_ref = None, version = v, purl = None,
                   properties = {}, external_references = {} \<rparr>))))"
  using assms
  by (simp add: root_metadata_def py_get_default_def split: option.splits)

lemma py_getitem_not_table:
  "\<forall>kvs. x \<noteq> TTable kvs \<Longrightarrow> \<exists>e. py_getitem x (TStr k) = Inl e"
  by (cases x) auto

lemma py_get_not_table:
  "\<forall>kvs. x \<noteq> TTable kvs \<Longrightarrow> py_get x k = Inl AttributeError"
  by (cases x) auto

lemma root_metadata_absent:
  assumes ne: "manifest \<noteq> []" and load: "load_toml env manifest = Inr m"
    and absent: "\<forall>t p. map_of m ''tool'' = Some (TTable t) \<longrightarrow>
                  map_of t ''poetry'' = Some (TTable p) \<longrightarrow>
                  map_of p ''name'' = None \<or> map_of p ''version'' = None"
  shows "\<exists>e. root_metadata env manifest = Inl e"
proof (cases "\<exists>t. map_of m ''tool'' = Some (TTable t)")
  case False
  have "\<exists>e. py_get_default (case map_of m ''tool'' of None \<Rightarrow> TStr [] | Some v \<Rightarrow> v) ''poetry'' (TStr []) = Inl e"
  proof (cases "map_of m ''tool''")
    case None
    then show ?thesis by (simp add: py_get_default_def)
  next
    case (Some x)
    then have "\<forall>kvs. x \<noteq> TTable kvs" using False by auto
    then have "py_get x ''poetry'' = Inl AttributeError" by (rule py_get_not_table)
    then show ?thesis using Some by (simp add: py_get_default_def)
  qed
  then show ?thesis
    using ne load by (auto simp: root_metadata_def py_get_default_def split: option.splits)
next
  case True
  then obtain t where t: "map_of m ''tool'' = Some (TTable t)" ..
  show ?thesis
  proof (cases "\<exists>p. map_of t ''poetry'' = Some (TTable p)")
    case True
    then obtain p where p: "map_of t ''poetry'' = Some (TTable p)" ..
    from absent t p have "map_of p ''name'' = None \<or> map_of p ''version'' = None" by simp
    then show ?thesis
      using root_metadata_table [OF ne load t p] by (auto split: option.splits)
  next
    case False
    let ?x = "case map_of t ''poetry'' of None \<Rightarrow> TStr [] | Some v \<Rightarrow> v"
    have "\<forall>kvs. ?x \<noteq> TTable kvs"
      using False by (cases "map_of t ''poetry''") auto
    then obtain e where "py_getitem ?x (TStr ''name'') = Inl e"
      using py_getitem_not_table [of ?x "''name''"] by blast
    then show ?thesis
      using ne load t
      by (auto simp: root_metadata_def py_get_default_def split: option.splits)
  qed
qed

text \<open>
  Claim C8, as the code has it.  With a manifest text that is not empty and decodes, if
  \<^verbatim>\<open>tool.poetry.name\<close> or \<^verbatim>\<open>tool.poetry.version\<close> is absent (also when \<^verbatim>\<open>tool\<close> or
  \<^verbatim>\<open>tool.poetry\<close> is not a table), the constructor raises; when \<^verbatim>\<open>tool.poetry\<close> is a
  table, the exception of the root metadata step is the plain \<^verbatim>\<open>KeyError\<close> of the missing
  key.  With the empty manifest text the step yields no root metadata and no exception:
  a result then has no root metadata, and whenever the constructor returns with a manifest
  it returns the same components without one.  (The claim added that the failure is
  distinct from a lock-file failure.)
\<close>

theorem manifest_name_and_version_required:
  "(manifest \<noteq> [] \<and> load_toml env manifest = Inr m \<and>
      (\<forall>t p. map_of m ''tool'' = Some (TTable t) \<longrightarrow>
             map_of t ''poetry'' = Some (TTable p) \<longrightarrow>
             map_of p ''name'' = None \<or> map_of p ''version'' = None)
      \<longrightarrow> (\<exists>e. fst (PoetryParser env lock u dm manifest s) = Inl e))
   \<and> (manifest \<noteq> [] \<and> load_toml env manifest = Inr m \<and>
      map_of m ''tool'' = Some (TTable t) \<and> map_of t ''poetry'' = Some (TTable p) \<and>
      (map_of p ''name'' = None \<or> map_of p ''version'' = None)
      \<longrightarrow> root_metadata env manifest =
            Inl (KeyError (TStr (if map_of p ''name'' = None then ''name'' else ''version''))))
   \<and> root_metadata env [] = Inr None
   \<and> (\<forall>res. fst (PoetryParser env lock u dm [] s) = Inr res \<longrightarrow> metadata res = None)
   \<and> (\<forall>res. fst (PoetryParser env lock u dm manifest s) = Inr res \<longrightarrow>
         fst (PoetryParser env lock u dm [] s) = Inr (res\<lparr>metadata := None\<rparr>))"
proof (intro conjI impI allI)
  assume a: "manifest \<noteq> [] \<and> load_toml env manifest = Inr m \<and>
      (\<forall>t p. map_of m ''tool'' = Some (TTable t) \<longrightarrow>
             map_of t ''poetry'' = Some (TTable p) \<longrightarrow>
             map_of p ''name'' = None \<or> map_of p ''version'' = None)"
  then obtain e where "root_metadata env manifest = Inl e"
    using root_metadata_absent [of manifest env m] by blast
  then show "\<exists>e. fst (PoetryParser env lock u dm manifest s) = Inl e"
    by (rule PoetryParser_root_failure)
next
  assume a: "manifest \<noteq> [] \<and> load_toml env manifest = Inr m \<and>
      map_of m ''tool'' = Some (TTable t) \<and> map_of t ''poetry'' = Some (TTable p) \<and>
      (map_of p ''name'' = None \<or> map_of p ''version'' = None)"
  then show "root_metadata env manifest =
            Inl (KeyError (TStr (if map_of p ''name'' = None then ''name'' else ''version'')))"
    using root_metadata_table [of manifest env m t p] by (auto split: option.splits)
next
  show "root_metadata env [] = Inr None" by (rule root_metadata_none)
next
  fix res
  assume "fst (PoetryParser env lock u dm [] s) = Inr res"
  from PoetryParser_without_manifest [OF this] this show "metadata res = None"
    by (cases res) simp
next
  fix res
  assume "fst (PoetryParser env lock u dm manifest s) = Inr res"
  then show "fst (PoetryParser env lock u dm [] s) = Inr (res\<lparr>metadata := None\<rparr>)"
    by (rule PoetryParser_without_manifest)
qed

theorem manifest_name_and_version_required_witness:
  "(\<exists>e. fst (PoetryParser (sample_env sample_texts) ''example.lock'' False quiet ''no-name.toml'' ())
         = Inl e)
   \<and> root_metadata (sample_env sample_texts) ''no-name.toml'' = Inl (KeyError (TStr ''name''))
   \<and> root_metadata (sample_env sample_texts) [] = Inr None
   \<and> metadata \<lparr> components = [requests_component], metadata = None \<rparr> = None
   \<and> fst (PoetryParser (sample_env sample_texts) ''example.lock'' False quiet [] ()) =
       Inr \<lparr> components = [requests_component], metadata = None \<rparr>"
proof -
  let ?E = "sample_env sample_texts"
  let ?p = "[(''version'', TStr ''0.1.0'')]"
  let ?t = "[(''poetry'', TTable ?p)]"
  let ?root = "BomMetaData \<lparr> name = TStr ''demo'', bom_ref = None, version = TStr ''0.1.0'',
      purl = None, properties = {}, external_references = {} \<rparr>"
  let ?res = "\<lparr> components = [requests_component], metadata = Some ?root \<rparr>"
  note bad = manifest_name_and_version_required
      [where env = ?E and manifest = "''no-name.toml''" and m = manifest_no_name and t = ?t
         and p = ?p and lock = "''example.lock''" and u = False and dm = quiet and s = "()"]
  note good = manifest_name_and_version_required
      [where env = ?E and manifest = "''ok.toml''" and m = manifest_ok and t = ?t
         and p = ?p and lock = "''example.lock''" and u = False and dm = quiet and s = "()"]
  have load: "load_toml ?E ''no-name.toml'' = Inr manifest_no_name"
    by (simp add: sample_defs)
  have tool: "map_of manifest_no_name ''tool'' = Some (TTable ?t)"
    by (simp add: sample_defs)
  have 1: "\<exists>e. fst (PoetryParser ?E ''example.lock'' False quiet ''no-name.toml'' ()) = Inl e"
    using bad load tool by simp
  have 2: "root_metadata ?E ''no-name.toml'' = Inl (KeyError (TStr ''name''))"
    using bad load tool by simp
  have 3: "root_metadata ?E [] = Inr None"
    using bad by blast
  have ok: "fst (PoetryParser ?E ''example.lock'' False quiet ''ok.toml'' ()) = Inr ?res"
    by (simp add: sample_defs run_defs py_get_default_def)
  from good ok have 5: "fst (PoetryParser ?E ''example.lock'' False quiet [] ()) =
      Inr (?res\<lparr>metadata := None\<rparr>)"
    by blast
  from good 5 have 4: "metadata (?res\<lparr>metadata := None\<rparr>) = None"
    by blast
  show ?thesis using 1 2 3 4 5 by simp
qed

text \<open>
  The claim C8 itself fails in its last part: a manifest without \<^verbatim>\<open>tool.poetry.name\<close>
  beside a sound lock document, and a sound manifest beside a lock document with a package
  entry without \<^verbatim>\<open>name\<close>, end in the same exception \<^verbatim>\<open>KeyError('name')\<close>.
\<close>

theorem manifest_error_not_distinct_counterexample:
  "root_metadata (sample_env sample_texts) ''no-name.toml'' = Inl (KeyError (TStr ''name''))
   \<and> fst (PoetryParser (sample_env sample_texts) ''example.lock'' False quiet [] ()) =
       Inr \<lparr> components = [requests_component], metadata = None \<rparr>
   \<and> fst (PoetryParser (sample_env sample_texts) ''example.lock'' False quiet ''no-name.toml'' ()) =
       Inl (KeyError (TStr ''name''))
   \<and> root_metadata (sample_env sample_texts) ''ok.toml'' =
       Inr (Some (BomMetaData \<lparr> name = TStr ''demo'', bom_ref = None, version = TStr ''0.1.0'',
                                 purl = None, properties = {}, external_references = {} \<rparr>))
   \<and> fst (PoetryParser (sample_env sample_texts) ''no-name.lock'' False quiet ''ok.toml'' ()) =
       Inl (KeyError (TStr ''name''))"
  by (simp add: sample_defs run_defs py_get_default_def)

end
